theory Spec2Isabelle
  imports Main "HOL-Library.Word"
begin

unbundle bit_operations_syntax

section \<open>The Synacor virtual machine of vm.py\<close>

text \<open>
  A shallow embedding of \<^verbatim>\<open>vm.py\<close>. Python integers are \<open>int\<close>, the memory image is a
  list of bytes (\<open>8 word\<close>), every exception the interpreter can raise is a value of
  \<open>error\<close>, and a method that can raise returns \<open>error + 'a\<close> with \<open>Inl\<close> for the
  exception. The state of a \<^verbatim>\<open>VirtualMachine\<close> object is a record that each method takes
  and returns.
\<close>

subsection \<open>Exceptions\<close>

text \<open>
  \<open>InvalidReadError\<close>, \<open>InvalidValueError\<close> and \<open>InvalidArgumentsError\<close> are the three
  classes the module defines (lines 8 to 10). The others are Python's own:
  \<open>NameError\<close> (a name that is not bound), \<open>KeyError\<close> (a missing dictionary key),
  \<open>IndexError\<close> (\<^verbatim>\<open>list.pop\<close> of an empty list, index 0 of an empty string),
  \<open>StructError\<close> (\<^verbatim>\<open>struct.error\<close>), \<open>ZeroDivisionError\<close>, \<open>ValueError\<close> (\<^verbatim>\<open>chr\<close> out of
  range, a tuple unpacked into the wrong number of names), \<open>OverflowError\<close> (\<^verbatim>\<open>chr\<close> of
  an integer that does not fit a C int) and \<open>NotImplementedError\<close>.
\<close>

datatype error =
    InvalidReadError
  | InvalidValueError
  | InvalidArgumentsError
  | NameError
  | KeyError
  | IndexError
  | StructError
  | ZeroDivisionError
  | ValueError
  | OverflowError
  | NotImplementedError

subsection \<open>The state of a VirtualMachine\<close>

text \<open>The keys of the \<^verbatim>\<open>_registers\<close> dictionary, \<^verbatim>\<open>'r0'\<close> to \<^verbatim>\<open>'r7'\<close>. No key is ever
  added or removed, so the dictionary is a total function on them.\<close>

datatype reg = R0 | R1 | R2 | R3 | R4 | R5 | R6 | R7

text \<open>
  The fields of the object, and the two streams of the process: \<open>stdin_buf\<close> is
  \<^verbatim>\<open>self._stdin\<close> (the rest of the line last read), \<open>sys_stdin\<close> the characters not yet
  read from \<^verbatim>\<open>sys.stdin\<close>, \<open>sys_stdout\<close> the characters written to \<^verbatim>\<open>sys.stdout\<close> so
  far. Characters are Unicode code points, so \<^verbatim>\<open>ord\<close> is the identity on them.
\<close>

record vm =
  running :: bool
  memory :: "8 word list"
  stack :: "int list"
  pc :: int
  registers :: "reg \<Rightarrow> int"
  stdin_buf :: "int list"
  sys_stdin :: "int list"
  sys_stdout :: "int list"

definition VirtualMachine :: "8 word list \<Rightarrow> int list \<Rightarrow> vm" where
  "VirtualMachine executable inp =
     \<lparr>running = True, memory = executable, stack = [], pc = 0,
      registers = (\<lambda>_. 0), stdin_buf = [], sys_stdin = inp, sys_stdout = []\<rparr>"

subsection \<open>Python slices and the struct module\<close>

text \<open>A slice bound of a sequence of length \<open>n\<close>: a negative bound counts from the end,
  and every bound is clamped into \<open>0..n\<close>.\<close>

definition slice_index :: "nat \<Rightarrow> int \<Rightarrow> nat" where
  "slice_index n i = (if i < 0 then nat (max (i + int n) 0) else min (nat i) n)"

text \<open>\<^verbatim>\<open>xs[start:stop]\<close>, \<^verbatim>\<open>xs[:stop]\<close> and \<^verbatim>\<open>xs[start:]\<close>.\<close>

definition py_slice :: "'a list \<Rightarrow> int \<Rightarrow> int \<Rightarrow> 'a list" where
  "py_slice xs start stop =
     (let lo = slice_index (length xs) start; hi = slice_index (length xs) stop
      in take (hi - lo) (drop lo xs))"

definition slice_to :: "'a list \<Rightarrow> int \<Rightarrow> 'a list" where
  "slice_to xs stop = take (slice_index (length xs) stop) xs"

definition slice_from :: "'a list \<Rightarrow> int \<Rightarrow> 'a list" where
  "slice_from xs start = drop (slice_index (length xs) start) xs"

text \<open>The little-endian unsigned 16-bit words of a buffer of even length.\<close>

fun unpack_H :: "8 word list \<Rightarrow> int list" where
  "unpack_H (lo # hi # rest) = (uint lo + 256 * uint hi) # unpack_H rest"
| "unpack_H _ = []"

text \<open>\<^verbatim>\<open>struct.unpack('<%dH' % words, buf)\<close>: the buffer must hold exactly \<open>2 * words\<close>
  bytes, and a negative count is not a format.\<close>

definition struct_unpack :: "int \<Rightarrow> 8 word list \<Rightarrow> error + int list" where
  "struct_unpack words buf =
     (if words < 0 \<or> int (length buf) \<noteq> 2 * words then Inl StructError
      else Inr (unpack_H buf))"

text \<open>\<^verbatim>\<open>struct.pack('<H', data)\<close>: only for \<open>0 \<le> data \<le> 65535\<close>.\<close>

definition struct_pack :: "int \<Rightarrow> error + 8 word list" where
  "struct_pack data =
     (if 0 \<le> data \<and> data \<le> 65535
      then Inr [word_of_int (data mod 256), word_of_int (data div 256)]
      else Inl StructError)"

subsection \<open>Stack, registers, memory and input\<close>

definition push :: "int \<Rightarrow> vm \<Rightarrow> vm" where
  "push val s = s\<lparr>stack := stack s @ [val]\<rparr>"

definition pop :: "vm \<Rightarrow> error + (int \<times> vm)" where
  "pop s =
     (if stack s = [] then Inl IndexError
      else Inr (last (stack s), s\<lparr>stack := butlast (stack s)\<rparr>))"

text \<open>The last branch raises \<^verbatim>\<open>InvalidRegisterError\<close>, a name the module never binds:
  evaluating it raises \<open>NameError\<close>.\<close>

definition setRegister :: "int \<Rightarrow> int \<Rightarrow> vm \<Rightarrow> error + vm" where
  "setRegister r v s =
     (if r = 32768 then Inr (s\<lparr>registers := (registers s)(R0 := v)\<rparr>)
      else if r = 32769 then Inr (s\<lparr>registers := (registers s)(R1 := v)\<rparr>)
      else if r = 32770 then Inr (s\<lparr>registers := (registers s)(R2 := v)\<rparr>)
      else if r = 32771 then Inr (s\<lparr>registers := (registers s)(R3 := v)\<rparr>)
      else if r = 32772 then Inr (s\<lparr>registers := (registers s)(R4 := v)\<rparr>)
      else if r = 32773 then Inr (s\<lparr>registers := (registers s)(R5 := v)\<rparr>)
      else if r = 32774 then Inr (s\<lparr>registers := (registers s)(R6 := v)\<rparr>)
      else if r = 32775 then Inr (s\<lparr>registers := (registers s)(R7 := v)\<rparr>)
      else Inl NameError)"

text \<open>The method assigns no field of the object: it is a function of the state.\<close>

definition getValueOrReg :: "int \<Rightarrow> vm \<Rightarrow> error + int" where
  "getValueOrReg v s =
     (if 0 \<le> v \<and> v \<le> 32767 then Inr v
      else if v = 32768 then Inr (registers s R0)
      else if v = 32769 then Inr (registers s R1)
      else if v = 32770 then Inr (registers s R2)
      else if v = 32771 then Inr (registers s R3)
      else if v = 32772 then Inr (registers s R4)
      else if v = 32773 then Inr (registers s R5)
      else if v = 32774 then Inr (registers s R6)
      else if v = 32775 then Inr (registers s R7)
      else Inl InvalidValueError)"

definition readMemory :: "int \<Rightarrow> int \<Rightarrow> vm \<Rightarrow> error + int list" where
  "readMemory address words s =
     (if words = 0 \<or> words > 2 ^ 15 then Inl InvalidReadError
      else struct_unpack words
             (py_slice (memory s) (address * 2) (address * 2 + 2 * words)))"

definition writeMemory :: "int \<Rightarrow> int \<Rightarrow> vm \<Rightarrow> error + vm" where
  "writeMemory address data s =
     (case struct_pack data of
        Inl e \<Rightarrow> Inl e
      | Inr w \<Rightarrow>
          Inr (s\<lparr>memory := slice_to (memory s) (address * 2) @ w
                              @ slice_from (memory s) (address * 2 + 2)\<rparr>))"

text \<open>\<^verbatim>\<open>sys.stdin.readline()\<close>: the characters up to and including the first newline
  (code 10), all of them when there is none, the empty string at the end of input.\<close>

definition readline :: "int list \<Rightarrow> int list \<times> int list" where
  "readline src =
     (case dropWhile (\<lambda>c. c \<noteq> 10) src of
        [] \<Rightarrow> (src, [])
      | nl # rest \<Rightarrow> (takeWhile (\<lambda>c. c \<noteq> 10) src @ [nl], rest))"

text \<open>The property \<^verbatim>\<open>stdin\<close>: refill the buffer when it is empty, then take its first
  character; index 0 of an empty string raises \<open>IndexError\<close>.\<close>

definition stdin :: "vm \<Rightarrow> error + (int \<times> vm)" where
  "stdin s =
     (let s1 = (if stdin_buf s = []
                then s\<lparr>stdin_buf := fst (readline (sys_stdin s)),
                        sys_stdin := snd (readline (sys_stdin s))\<rparr>
                else s)
      in case stdin_buf s1 of
           [] \<Rightarrow> Inl IndexError
         | c # cs \<Rightarrow> Inr (c, s1\<lparr>stdin_buf := cs\<rparr>))"

subsection \<open>The instruction classes\<close>

text \<open>
  The subclasses of \<^verbatim>\<open>Instruction\<close>, and the base class itself: the metaclass registers
  every class that is not among its own bases, so the base class is registered too, under
  its \<open>OPCODE\<close> of \<open>-1\<close>. The class \<^verbatim>\<open>Not\<close> is \<open>Not_op\<close> here.
\<close>

datatype opclass =
    Instruction | Halt | Set | Push | Pop | Eq | Gt | Jmp | Jt | Jf | Add | Mult | Mod
  | And | Or | Not_op | Rmem | Wmem | Call | Ret | Out | In | Noop

fun OPCODE :: "opclass \<Rightarrow> int" where
  "OPCODE Instruction = -1"
| "OPCODE Halt = 0"
| "OPCODE Set = 1"
| "OPCODE Push = 2"
| "OPCODE Pop = 3"
| "OPCODE Eq = 4"
| "OPCODE Gt = 5"
| "OPCODE Jmp = 6"
| "OPCODE Jt = 7"
| "OPCODE Jf = 8"
| "OPCODE Add = 9"
| "OPCODE Mult = 10"
| "OPCODE Mod = 11"
| "OPCODE And = 12"
| "OPCODE Or = 13"
| "OPCODE Not_op = 14"
| "OPCODE Rmem = 15"
| "OPCODE Wmem = 16"
| "OPCODE Call = 17"
| "OPCODE Ret = 18"
| "OPCODE Out = 19"
| "OPCODE In = 20"
| "OPCODE Noop = 21"

fun ARGS :: "opclass \<Rightarrow> int" where
  "ARGS Instruction = 0"
| "ARGS Halt = 0"
| "ARGS Set = 2"
| "ARGS Push = 1"
| "ARGS Pop = 1"
| "ARGS Eq = 3"
| "ARGS Gt = 3"
| "ARGS Jmp = 1"
| "ARGS Jt = 2"
| "ARGS Jf = 2"
| "ARGS Add = 3"
| "ARGS Mult = 3"
| "ARGS Mod = 3"
| "ARGS And = 3"
| "ARGS Or = 3"
| "ARGS Not_op = 2"
| "ARGS Rmem = 2"
| "ARGS Wmem = 2"
| "ARGS Call = 1"
| "ARGS Ret = 0"
| "ARGS Out = 1"
| "ARGS In = 1"
| "ARGS Noop = 0"

text \<open>\<^verbatim>\<open>__len__\<close>, of a class and of an instance alike.\<close>

definition len :: "opclass \<Rightarrow> int" where
  "len c = 1 + ARGS c"

text \<open>The registry, filled in the order the classes are defined; no two classes share
  an opcode.\<close>

definition classes :: "opclass list" where
  "classes =
     [Instruction, Halt, Set, Push, Pop, Eq, Gt, Jmp, Jt, Jf, Add, Mult, Mod, And, Or,
      Not_op, Rmem, Wmem, Call, Ret, Out, In, Noop]"

definition registry :: "int \<Rightarrow> opclass option" where
  "registry opcode = map_of (map (\<lambda>c. (OPCODE c, c)) classes) opcode"

text \<open>A decoded instruction: its class and its raw operand words.\<close>

record instruction =
  cls :: opclass
  args :: "int list"

text \<open>\<^verbatim>\<open>Instruction.__init__\<close>.\<close>

definition init :: "opclass \<Rightarrow> int list \<Rightarrow> error + instruction" where
  "init c as =
     (if int (length as) \<noteq> ARGS c then Inl InvalidArgumentsError
      else Inr \<lparr>cls = c, args = as\<rparr>)"

definition decode :: "vm \<Rightarrow> error + instruction" where
  "decode s =
     (case readMemory (pc s) 1 s of
        Inl e \<Rightarrow> Inl e
      | Inr ws \<Rightarrow>
          (case ws of
             [] \<Rightarrow> Inl IndexError
           | opcode # _ \<Rightarrow>
               (case registry opcode of
                  None \<Rightarrow> Inl KeyError
                | Some c \<Rightarrow>
                    if ARGS c \<noteq> 0
                    then (case readMemory (pc s + 1) (len c - 1) s of
                            Inl e \<Rightarrow> Inl e
                          | Inr as \<Rightarrow> init c as)
                    else init c [])))"

subsection \<open>The effect of each instruction\<close>

text \<open>
  Each \<^verbatim>\<open>exec\<close> method takes the operand tuple \<^verbatim>\<open>self._args\<close> and the machine. A method
  that unpacks the tuple (\<^verbatim>\<open>a, b = self._args\<close>) raises \<open>ValueError\<close> on a tuple of
  another length, one that indexes it (\<^verbatim>\<open>self._args[0]\<close>) raises \<open>IndexError\<close> on the empty
  tuple. The arguments of a call are evaluated before the call, so an operand that does
  not resolve fails before \<open>setRegister\<close> looks at its register.
\<close>

definition Instruction_exec :: "int list \<Rightarrow> vm \<Rightarrow> error + vm" where
  "Instruction_exec as s = Inl NotImplementedError"

definition Halt_exec :: "int list \<Rightarrow> vm \<Rightarrow> error + vm" where
  "Halt_exec as s = Inr (s\<lparr>running := False\<rparr>)"

fun Set_exec :: "int list \<Rightarrow> vm \<Rightarrow> error + vm" where
  "Set_exec [a, b] s =
     (case getValueOrReg b s of Inl e \<Rightarrow> Inl e | Inr v \<Rightarrow> setRegister a v s)"
| "Set_exec _ s = Inl ValueError"

fun Push_exec :: "int list \<Rightarrow> vm \<Rightarrow> error + vm" where
  "Push_exec (a # _) s =
     (case getValueOrReg a s of Inl e \<Rightarrow> Inl e | Inr v \<Rightarrow> Inr (push v s))"
| "Push_exec [] s = Inl IndexError"

fun Pop_exec :: "int list \<Rightarrow> vm \<Rightarrow> error + vm" where
  "Pop_exec (a # _) s =
     (case pop s of
        Inl e \<Rightarrow> Inl e
      | Inr (val, s1) \<Rightarrow>
          (case getValueOrReg val s1 of
             Inl e \<Rightarrow> Inl e
           | Inr v \<Rightarrow> setRegister a v s1))"
| "Pop_exec [] s = Inl IndexError"

fun Eq_exec :: "int list \<Rightarrow> vm \<Rightarrow> error + vm" where
  "Eq_exec [a, b, c] s =
     (case getValueOrReg b s of
        Inl e \<Rightarrow> Inl e
      | Inr x \<Rightarrow>
          (case getValueOrReg c s of
             Inl e \<Rightarrow> Inl e
           | Inr y \<Rightarrow> if x = y then setRegister a 1 s else setRegister a 0 s))"
| "Eq_exec _ s = Inl ValueError"

fun Gt_exec :: "int list \<Rightarrow> vm \<Rightarrow> error + vm" where
  "Gt_exec [a, b, c] s =
     (case getValueOrReg b s of
        Inl e \<Rightarrow> Inl e
      | Inr x \<Rightarrow>
          (case getValueOrReg c s of
             Inl e \<Rightarrow> Inl e
           | Inr y \<Rightarrow> if x > y then setRegister a 1 s else setRegister a 0 s))"
| "Gt_exec _ s = Inl ValueError"

fun Jmp_exec :: "int list \<Rightarrow> vm \<Rightarrow> error + vm" where
  "Jmp_exec (a # _) s = Inr s"
| "Jmp_exec [] s = Inl IndexError"

fun Jt_exec :: "int list \<Rightarrow> vm \<Rightarrow> error + vm" where
  "Jt_exec [a, b] s = Inr s"
| "Jt_exec _ s = Inl ValueError"

fun Jf_exec :: "int list \<Rightarrow> vm \<Rightarrow> error + vm" where
  "Jf_exec [a, b] s = Inr s"
| "Jf_exec _ s = Inl ValueError"

fun Add_exec :: "int list \<Rightarrow> vm \<Rightarrow> error + vm" where
  "Add_exec [a, b, c] s =
     (case getValueOrReg b s of
        Inl e \<Rightarrow> Inl e
      | Inr x \<Rightarrow>
          (case getValueOrReg c s of
             Inl e \<Rightarrow> Inl e
           | Inr y \<Rightarrow> setRegister a ((x + y) mod 2 ^ 15) s))"
| "Add_exec _ s = Inl ValueError"

fun Mult_exec :: "int list \<Rightarrow> vm \<Rightarrow> error + vm" where
  "Mult_exec [a, b, c] s =
     (case getValueOrReg b s of
        Inl e \<Rightarrow> Inl e
      | Inr x \<Rightarrow>
          (case getValueOrReg c s of
             Inl e \<Rightarrow> Inl e
           | Inr y \<Rightarrow> setRegister a ((x * y) mod 2 ^ 15) s))"
| "Mult_exec _ s = Inl ValueError"

fun Mod_exec :: "int list \<Rightarrow> vm \<Rightarrow> error + vm" where
  "Mod_exec [a, b, c] s =
     (case getValueOrReg b s of
        Inl e \<Rightarrow> Inl e
      | Inr x \<Rightarrow>
          (case getValueOrReg c s of
             Inl e \<Rightarrow> Inl e
           | Inr y \<Rightarrow> if y = 0 then Inl ZeroDivisionError else setRegister a (x mod y) s))"
| "Mod_exec _ s = Inl ValueError"

fun And_exec :: "int list \<Rightarrow> vm \<Rightarrow> error + vm" where
  "And_exec [a, b, c] s =
     (case getValueOrReg b s of
        Inl e \<Rightarrow> Inl e
      | Inr x \<Rightarrow>
          (case getValueOrReg c s of
             Inl e \<Rightarrow> Inl e
           | Inr y \<Rightarrow> setRegister a (x AND y) s))"
| "And_exec _ s = Inl ValueError"

fun Or_exec :: "int list \<Rightarrow> vm \<Rightarrow> error + vm" where
  "Or_exec [a, b, c] s =
     (case getValueOrReg b s of
        Inl e \<Rightarrow> Inl e
      | Inr x \<Rightarrow>
          (case getValueOrReg c s of
             Inl e \<Rightarrow> Inl e
           | Inr y \<Rightarrow> setRegister a (x OR y) s))"
| "Or_exec _ s = Inl ValueError"

fun Not_exec :: "int list \<Rightarrow> vm \<Rightarrow> error + vm" where
  "Not_exec [a, b] s =
     (case getValueOrReg b s of
        Inl e \<Rightarrow> Inl e
      | Inr x \<Rightarrow> setRegister a ((NOT x) AND 32767) s)"
| "Not_exec _ s = Inl ValueError"

fun Rmem_exec :: "int list \<Rightarrow> vm \<Rightarrow> error + vm" where
  "Rmem_exec [a, b] s =
     (case getValueOrReg b s of
        Inl e \<Rightarrow> Inl e
      | Inr address \<Rightarrow>
          (case readMemory address 1 s of
             Inl e \<Rightarrow> Inl e
           | Inr ws \<Rightarrow>
               (case ws of
                  [] \<Rightarrow> Inl IndexError
                | val # _ \<Rightarrow> setRegister a val s)))"
| "Rmem_exec _ s = Inl ValueError"

fun Wmem_exec :: "int list \<Rightarrow> vm \<Rightarrow> error + vm" where
  "Wmem_exec [a, b] s =
     (case getValueOrReg a s of
        Inl e \<Rightarrow> Inl e
      | Inr address \<Rightarrow>
          (case getValueOrReg b s of
             Inl e \<Rightarrow> Inl e
           | Inr data \<Rightarrow> writeMemory address data s))"
| "Wmem_exec _ s = Inl ValueError"

fun Call_exec :: "int list \<Rightarrow> vm \<Rightarrow> error + vm" where
  "Call_exec (a # _) s = Inr (push (pc s + len Call) s)"
| "Call_exec [] s = Inl IndexError"

definition Ret_exec :: "int list \<Rightarrow> vm \<Rightarrow> error + vm" where
  "Ret_exec as s = Inr s"

text \<open>\<^verbatim>\<open>chr\<close> takes a code point in \<open>0..0x10FFFF\<close>; the character is appended to the
  output, which takes every code point.\<close>

fun Out_exec :: "int list \<Rightarrow> vm \<Rightarrow> error + vm" where
  "Out_exec (a # _) s =
     (case getValueOrReg a s of
        Inl e \<Rightarrow> Inl e
      | Inr v \<Rightarrow>
          if v < - (2 ^ 31) \<or> 2 ^ 31 \<le> v then Inl OverflowError
          else if v < 0 \<or> 1114111 < v then Inl ValueError
          else Inr (s\<lparr>sys_stdout := sys_stdout s @ [v]\<rparr>))"
| "Out_exec [] s = Inl IndexError"

fun In_exec :: "int list \<Rightarrow> vm \<Rightarrow> error + vm" where
  "In_exec (a # _) s =
     (case stdin s of
        Inl e \<Rightarrow> Inl e
      | Inr (ch, s1) \<Rightarrow> setRegister a ch s1)"
| "In_exec [] s = Inl IndexError"

definition Noop_exec :: "int list \<Rightarrow> vm \<Rightarrow> error + vm" where
  "Noop_exec as s = Inr s"

text \<open>The method \<^verbatim>\<open>exec\<close> of an instruction, by its class.\<close>

definition exec :: "instruction \<Rightarrow> vm \<Rightarrow> error + vm" where
  "exec i s =
     (case cls i of
        Instruction \<Rightarrow> Instruction_exec (args i) s
      | Halt \<Rightarrow> Halt_exec (args i) s
      | Set \<Rightarrow> Set_exec (args i) s
      | Push \<Rightarrow> Push_exec (args i) s
      | Pop \<Rightarrow> Pop_exec (args i) s
      | Eq \<Rightarrow> Eq_exec (args i) s
      | Gt \<Rightarrow> Gt_exec (args i) s
      | Jmp \<Rightarrow> Jmp_exec (args i) s
      | Jt \<Rightarrow> Jt_exec (args i) s
      | Jf \<Rightarrow> Jf_exec (args i) s
      | Add \<Rightarrow> Add_exec (args i) s
      | Mult \<Rightarrow> Mult_exec (args i) s
      | Mod \<Rightarrow> Mod_exec (args i) s
      | And \<Rightarrow> And_exec (args i) s
      | Or \<Rightarrow> Or_exec (args i) s
      | Not_op \<Rightarrow> Not_exec (args i) s
      | Rmem \<Rightarrow> Rmem_exec (args i) s
      | Wmem \<Rightarrow> Wmem_exec (args i) s
      | Call \<Rightarrow> Call_exec (args i) s
      | Ret \<Rightarrow> Ret_exec (args i) s
      | Out \<Rightarrow> Out_exec (args i) s
      | In \<Rightarrow> In_exec (args i) s
      | Noop \<Rightarrow> Noop_exec (args i) s)"

subsection \<open>The program counter after each instruction\<close>

text \<open>\<^verbatim>\<open>Instruction.incpc\<close>, inherited by every class that does not override it.\<close>

definition Instruction_incpc :: "opclass \<Rightarrow> vm \<Rightarrow> error + vm" where
  "Instruction_incpc c s = Inr (s\<lparr>pc := pc s + len c\<rparr>)"

fun Jmp_incpc :: "int list \<Rightarrow> vm \<Rightarrow> error + vm" where
  "Jmp_incpc (a # _) s =
     (case getValueOrReg a s of Inl e \<Rightarrow> Inl e | Inr t \<Rightarrow> Inr (s\<lparr>pc := t\<rparr>))"
| "Jmp_incpc [] s = Inl IndexError"

fun Jt_incpc :: "int list \<Rightarrow> vm \<Rightarrow> error + vm" where
  "Jt_incpc [a, b] s =
     (case getValueOrReg a s of
        Inl e \<Rightarrow> Inl e
      | Inr x \<Rightarrow>
          if x \<noteq> 0
          then (case getValueOrReg b s of Inl e \<Rightarrow> Inl e | Inr t \<Rightarrow> Inr (s\<lparr>pc := t\<rparr>))
          else Instruction_incpc Jt s)"
| "Jt_incpc _ s = Inl ValueError"

fun Jf_incpc :: "int list \<Rightarrow> vm \<Rightarrow> error + vm" where
  "Jf_incpc [a, b] s =
     (case getValueOrReg a s of
        Inl e \<Rightarrow> Inl e
      | Inr x \<Rightarrow>
          if x = 0
          then (case getValueOrReg b s of Inl e \<Rightarrow> Inl e | Inr t \<Rightarrow> Inr (s\<lparr>pc := t\<rparr>))
          else Instruction_incpc Jf s)"
| "Jf_incpc _ s = Inl ValueError"

fun Call_incpc :: "int list \<Rightarrow> vm \<Rightarrow> error + vm" where
  "Call_incpc (a # _) s =
     (case getValueOrReg a s of Inl e \<Rightarrow> Inl e | Inr t \<Rightarrow> Inr (s\<lparr>pc := t\<rparr>))"
| "Call_incpc [] s = Inl IndexError"

text \<open>\<^verbatim>\<open>Ret.incpc\<close> resolves the popped value, and then resolves the result again.\<close>

definition Ret_incpc :: "int list \<Rightarrow> vm \<Rightarrow> error + vm" where
  "Ret_incpc as s =
     (case pop s of
        Inl e \<Rightarrow> Inl e
      | Inr (val, s1) \<Rightarrow>
          (case getValueOrReg val s1 of
             Inl e \<Rightarrow> Inl e
           | Inr a \<Rightarrow>
               (case getValueOrReg a s1 of
                  Inl e \<Rightarrow> Inl e
                | Inr t \<Rightarrow> Inr (s1\<lparr>pc := t\<rparr>))))"

definition incpc :: "instruction \<Rightarrow> vm \<Rightarrow> error + vm" where
  "incpc i s =
     (case cls i of
        Jmp \<Rightarrow> Jmp_incpc (args i) s
      | Jt \<Rightarrow> Jt_incpc (args i) s
      | Jf \<Rightarrow> Jf_incpc (args i) s
      | Call \<Rightarrow> Call_incpc (args i) s
      | Ret \<Rightarrow> Ret_incpc (args i) s
      | _ \<Rightarrow> Instruction_incpc (cls i) s)"

subsection \<open>The loop\<close>

text \<open>One turn of the loop of \<^verbatim>\<open>run\<close>: decode, \<^verbatim>\<open>exec\<close>, \<^verbatim>\<open>incpc\<close>.\<close>

definition step :: "vm \<Rightarrow> error + vm" where
  "step s =
     (case decode s of
        Inl e \<Rightarrow> Inl e
      | Inr i \<Rightarrow> (case exec i s of Inl e \<Rightarrow> Inl e | Inr s1 \<Rightarrow> incpc i s1))"

text \<open>\<^verbatim>\<open>run\<close>: \<open>None\<close> when the loop never ends, \<open>Some (Inl e)\<close> when an instruction
  raises \<open>e\<close>, \<open>Some (Inr s)\<close> when the machine stops in state \<open>s\<close>.\<close>

partial_function (option) run :: "vm \<Rightarrow> (error + vm) option" where
  "run s =
     (if running s
      then (case step s of Inl e \<Rightarrow> Some (Inl e) | Inr s1 \<Rightarrow> run s1)
      else Some (Inr s))"

text \<open>The script: \<^verbatim>\<open>main\<close> returns 0 and the process exits with it; any exception is
  caught at the top level, which exits with \<open>-1\<close>.\<close>

definition exit_status :: "(error + vm) option \<Rightarrow> int option" where
  "exit_status r =
     (case r of None \<Rightarrow> None | Some (Inl e) \<Rightarrow> Some (- 1) | Some (Inr s) \<Rightarrow> Some 0)"

definition main :: "8 word list \<Rightarrow> int list \<Rightarrow> int option" where
  "main program inp = exit_status (run (VirtualMachine program inp))"

text \<open>A program image from its 16-bit words, little-endian, as the file holds it.\<close>

fun image :: "int list \<Rightarrow> 8 word list" where
  "image [] = []"
| "image (w # ws) = word_of_int (w mod 256) # word_of_int (w div 256) # image ws"

subsection \<open>Notions the properties are stated with\<close>

text \<open>The register a reference denotes: the reference minus 32768.\<close>

fun register_number :: "reg \<Rightarrow> int" where
  "register_number R0 = 0"
| "register_number R1 = 1"
| "register_number R2 = 2"
| "register_number R3 = 3"
| "register_number R4 = 4"
| "register_number R5 = 5"
| "register_number R6 = 6"
| "register_number R7 = 7"

text \<open>The 16-bit word at address \<open>k\<close> of a memory of at least \<open>2 * k + 2\<close> bytes.\<close>

definition word_at :: "8 word list \<Rightarrow> nat \<Rightarrow> int" where
  "word_at m k = uint (m ! (2 * k)) + 256 * uint (m ! (2 * k + 1))"




section \<open>Evaluation and basic facts\<close>

lemmas vm_eval =
  step_def decode_def VirtualMachine_def readMemory_def py_slice_def slice_index_def
  struct_unpack_def registry_def classes_def init_def len_def exec_def incpc_def
  Instruction_incpc_def getValueOrReg_def setRegister_def push_def pop_def
  Halt_exec_def Ret_exec_def Noop_exec_def Ret_incpc_def Instruction_exec_def

lemma register_reference:
  assumes "32768 \<le> w" and "w \<le> 32775"
  shows "\<exists>r. w = 32768 + register_number r"
proof -
  from assms consider "w = 32768" | "w = 32769" | "w = 32770" | "w = 32771"
    | "w = 32772" | "w = 32773" | "w = 32774" | "w = 32775"
    by linarith
  then show ?thesis
  proof cases
    case 1 then show ?thesis by (intro exI [of _ R0]) simp
  next
    case 2 then show ?thesis by (intro exI [of _ R1]) simp
  next
    case 3 then show ?thesis by (intro exI [of _ R2]) simp
  next
    case 4 then show ?thesis by (intro exI [of _ R3]) simp
  next
    case 5 then show ?thesis by (intro exI [of _ R4]) simp
  next
    case 6 then show ?thesis by (intro exI [of _ R5]) simp
  next
    case 7 then show ?thesis by (intro exI [of _ R6]) simp
  next
    case 8 then show ?thesis by (intro exI [of _ R7]) simp
  qed
qed

lemma register_number_range: "0 \<le> register_number r \<and> register_number r \<le> 7"
  by (cases r) simp_all

lemma getValueOrReg_literal:
  "0 \<le> w \<Longrightarrow> w \<le> 32767 \<Longrightarrow> getValueOrReg w s = Inr w"
  by (simp add: getValueOrReg_def)

lemma getValueOrReg_register:
  "getValueOrReg (32768 + register_number r) s = Inr (registers s r)"
  by (cases r) (simp_all add: getValueOrReg_def)

lemma getValueOrReg_invalid:
  "w < 0 \<or> 32775 < w \<Longrightarrow> getValueOrReg w s = Inl InvalidValueError"
  by (auto simp add: getValueOrReg_def)

lemma setRegister_register:
  "setRegister (32768 + register_number r) v s = Inr (s\<lparr>registers := (registers s)(r := v)\<rparr>)"
  by (cases r) (simp_all add: setRegister_def)

lemma setRegister_invalid:
  "w < 32768 \<or> 32775 < w \<Longrightarrow> setRegister w v s = Inl NameError"
  by (auto simp add: setRegister_def)

lemma unpack_H_words:
  "length buf = 2 * n \<Longrightarrow> unpack_H buf = map (word_at buf) [0..<n]"
proof (induction n arbitrary: buf)
  case 0
  then show ?case by simp
next
  case (Suc n)
  then obtain lo hi rest where buf: "buf = lo # hi # rest"
    by (cases buf; cases "tl buf") auto
  with Suc.prems have "length rest = 2 * n" by simp
  then have IH: "unpack_H rest = map (word_at rest) [0..<n]"
    by (rule Suc.IH)
  have shift: "word_at buf (Suc k) = word_at rest k" for k
    by (simp add: buf word_at_def)
  have "unpack_H buf = word_at buf 0 # unpack_H rest"
    by (simp add: buf word_at_def)
  also have "\<dots> = word_at buf 0 # map (\<lambda>k. word_at buf (Suc k)) [0..<n]"
    by (simp only: IH shift)
  also have "\<dots> = map (word_at buf) [0..<Suc n]"
    by (simp only: map_upt_Suc)
  finally show ?case .
qed

lemma slice_index_inside:
  "0 \<le> i \<Longrightarrow> i \<le> int n \<Longrightarrow> slice_index n i = nat i"
  by (simp add: slice_index_def)

lemma slice_index_beyond:
  "int n \<le> i \<Longrightarrow> slice_index n i = n"
  by (simp add: slice_index_def)

lemma py_slice_inside:
  assumes "0 \<le> lo" and "lo \<le> hi" and "hi \<le> int (length xs)"
  shows "py_slice xs lo hi = take (nat (hi - lo)) (drop (nat lo) xs)"
  using assms by (simp add: py_slice_def Let_def slice_index_inside nat_diff_distrib)

lemma struct_unpack_error:
  "struct_unpack words buf \<noteq> Inl InvalidReadError"
  by (simp add: struct_unpack_def)

lemma readMemory_inside:
  assumes "0 < words" and "words \<le> 32768" and "0 \<le> address"
    and "2 * (address + words) \<le> int (length (memory s))"
  shows "readMemory address words s
           = Inr (map (\<lambda>k. word_at (memory s) (nat address + k)) [0..<nat words])"
proof -
  let ?buf = "take (2 * nat words) (drop (2 * nat address) (memory s))"
  have slice: "py_slice (memory s) (address * 2) (address * 2 + 2 * words) = ?buf"
    using assms by (simp add: py_slice_inside nat_mult_distrib mult.commute)
  have len: "length ?buf = 2 * nat words"
    using assms by simp
  have "word_at ?buf k = word_at (memory s) (nat address + k)" if "k < nat words" for k
    using that assms by (simp add: word_at_def algebra_simps)
  then have "map (word_at ?buf) [0..<nat words]
               = map (\<lambda>k. word_at (memory s) (nat address + k)) [0..<nat words]"
    by simp
  with unpack_H_words [OF len] have "unpack_H ?buf
      = map (\<lambda>k. word_at (memory s) (nat address + k)) [0..<nat words]"
    by simp
  with slice len assms show ?thesis
    by (simp add: readMemory_def struct_unpack_def)
qed

lemma readMemory_outside:
  assumes "0 < words" and "words \<le> 32768" and "0 \<le> address"
    and "int (length (memory s)) < 2 * (address + words)"
  shows "readMemory address words s = Inl StructError"
proof -
  have "length (py_slice (memory s) (address * 2) (address * 2 + 2 * words)) < 2 * nat words"
    using assms by (simp add: py_slice_def slice_index_def)
  then have "int (length (py_slice (memory s) (address * 2) (address * 2 + 2 * words))) \<noteq> 2 * words"
    using assms by linarith
  with assms show ?thesis
    by (simp add: readMemory_def struct_unpack_def)
qed

lemma setRegister_Inr:
  assumes "setRegister w v s = Inr s'"
  shows "\<exists>r. w = 32768 + register_number r \<and> s' = s\<lparr>registers := (registers s)(r := v)\<rparr>"
proof -
  have "\<not> (w < 32768 \<or> 32775 < w)"
    using assms setRegister_invalid [of w v s] by auto
  then obtain r where "w = 32768 + register_number r"
    using register_reference [of w] by auto
  with assms show ?thesis
    by (auto simp add: setRegister_register)
qed

lemma getValueOrReg_registers:
  "registers s' = registers s \<Longrightarrow> getValueOrReg w s' = getValueOrReg w s"
  by (simp add: getValueOrReg_def)

lemma struct_pack_Inr:
  "struct_pack v = Inr w \<Longrightarrow>
     0 \<le> v \<and> v \<le> 65535 \<and> w = [word_of_int (v mod 256), word_of_int (v div 256)]"
  by (auto simp add: struct_pack_def split: if_splits)

lemma writeMemory_Inr:
  "writeMemory address v s = Inr s1 \<Longrightarrow> 0 \<le> v \<and> v \<le> 65535"
  by (simp add: writeMemory_def struct_pack_def split: if_splits)

lemma byte_pair:
  assumes "0 \<le> v" and "v \<le> 65535"
  shows "uint (word_of_int (v mod 256) :: 8 word)
           + 256 * uint (word_of_int (v div 256) :: 8 word) = v"
proof -
  have "v div 256 < 256" using assms by simp
  moreover have "0 \<le> v div 256" using assms by simp
  ultimately have "uint (word_of_int (v div 256) :: 8 word) = v div 256"
    by (simp add: uint_word_of_int_eq take_bit_eq_mod)
  moreover have "uint (word_of_int (v mod 256) :: 8 word) = v mod 256"
    by (simp add: uint_word_of_int_eq take_bit_eq_mod)
  ultimately show ?thesis by simp
qed

lemma writeMemory_inside:
  assumes "0 \<le> address" and "2 * address + 2 \<le> int (length (memory s))"
    and "0 \<le> v" and "v \<le> 65535"
  shows "writeMemory address v s
           = Inr (s\<lparr>memory := take (2 * nat address) (memory s)
                     @ [word_of_int (v mod 256), word_of_int (v div 256)]
                     @ drop (2 * nat address + 2) (memory s)\<rparr>)"
proof -
  have "slice_index (length (memory s)) (address * 2) = 2 * nat address"
    using assms by (simp add: slice_index_def)
  moreover have "slice_index (length (memory s)) (address * 2 + 2) = 2 * nat address + 2"
    using assms by (simp add: slice_index_def)
  ultimately show ?thesis
    using assms by (simp add: writeMemory_def struct_pack_def slice_to_def slice_from_def)
qed

lemma read_after_write:
  assumes "0 \<le> address" and "2 * address + 2 \<le> int (length (memory s))"
    and "0 \<le> v" and "v \<le> 65535" and "writeMemory address v s = Inr s1"
  shows "readMemory address 1 s1 = Inr [v]" and "registers s1 = registers s"
proof -
  let ?m = "take (2 * nat address) (memory s)
              @ [word_of_int (v mod 256), word_of_int (v div 256)]
              @ drop (2 * nat address + 2) (memory s)"
  have s1: "s1 = s\<lparr>memory := ?m\<rparr>"
    using assms writeMemory_inside [of address s v] by simp
  have len: "length (take (2 * nat address) (memory s)) = 2 * nat address"
    using assms by simp
  have "word_at ?m (nat address)
          = uint (word_of_int (v mod 256) :: 8 word)
              + 256 * uint (word_of_int (v div 256) :: 8 word)"
    unfolding word_at_def using len by (simp add: nth_append)
  then have w: "word_at ?m (nat address) = v"
    using assms byte_pair by simp
  have "2 * (address + 1) \<le> int (length (memory s1))"
    using assms s1 by simp
  then have "readMemory address 1 s1
               = Inr (map (\<lambda>k. word_at (memory s1) (nat address + k)) [0..<nat 1])"
    using assms by (intro readMemory_inside) simp_all
  then show "readMemory address 1 s1 = Inr [v]"
    using w s1 by simp
  show "registers s1 = registers s"
    using s1 by simp
qed








































section \<open>Operand resolution\<close>

text \<open>
  Claim C1. For every raw operand word \<open>w\<close>: a literal (\<open>0 \<le> w \<le> 32767\<close>) resolves to
  itself, a register reference (\<open>32768 \<le> w \<le> 32775\<close>) resolves to the current value of
  register \<open>w - 32768\<close>, and every other \<open>w\<close> fails with \<open>InvalidValueError\<close>, the
  invalid-operand error. \<open>getValueOrReg\<close> returns a value and no machine: the method
  assigns no field, so registers, memory, stack and program counter are as they were.
\<close>

theorem C1_getValueOrReg:
  "(0 \<le> w \<and> w \<le> 32767 \<longrightarrow> getValueOrReg w s = Inr w) \<and>
   (32768 \<le> w \<and> w \<le> 32775 \<longrightarrow>
      (\<exists>r. register_number r = w - 32768 \<and> getValueOrReg w s = Inr (registers s r))) \<and>
   (w < 0 \<or> 32775 < w \<longrightarrow> getValueOrReg w s = Inl InvalidValueError)"
proof (intro conjI impI)
  assume "0 \<le> w \<and> w \<le> 32767"
  then show "getValueOrReg w s = Inr w"
    by (simp add: getValueOrReg_literal)
next
  assume "32768 \<le> w \<and> w \<le> 32775"
  then obtain r where "w = 32768 + register_number r"
    using register_reference by blast
  then have "register_number r = w - 32768 \<and> getValueOrReg w s = Inr (registers s r)"
    by (simp add: getValueOrReg_register)
  then show "\<exists>r. register_number r = w - 32768 \<and> getValueOrReg w s = Inr (registers s r)" ..
next
  assume "w < 0 \<or> 32775 < w"
  then show "getValueOrReg w s = Inl InvalidValueError"
    by (rule getValueOrReg_invalid)
qed

theorem C1_getValueOrReg_witness:
  "getValueOrReg 7 ((VirtualMachine [] [])\<lparr>registers := (\<lambda>_. 0)(R1 := 42)\<rparr>) = Inr 7 \<and>
   (\<exists>r. register_number r = 1 \<and>
        getValueOrReg 32769 ((VirtualMachine [] [])\<lparr>registers := (\<lambda>_. 0)(R1 := 42)\<rparr>)
          = Inr (registers ((VirtualMachine [] [])\<lparr>registers := (\<lambda>_. 0)(R1 := 42)\<rparr>) r)) \<and>
   getValueOrReg 32776 ((VirtualMachine [] [])\<lparr>registers := (\<lambda>_. 0)(R1 := 42)\<rparr>)
     = Inl InvalidValueError"
  using C1_getValueOrReg [of 7 "(VirtualMachine [] [])\<lparr>registers := (\<lambda>_. 0)(R1 := 42)\<rparr>"]
    C1_getValueOrReg [of 32769 "(VirtualMachine [] [])\<lparr>registers := (\<lambda>_. 0)(R1 := 42)\<rparr>"]
    C1_getValueOrReg [of 32776 "(VirtualMachine [] [])\<lparr>registers := (\<lambda>_. 0)(R1 := 42)\<rparr>"]
  by simp

section \<open>Arithmetic\<close>

text \<open>
  Claim C6. When the operands \<open>b\<close> and \<open>c\<close> resolve to \<open>x\<close> and \<open>y\<close>, \<^verbatim>\<open>add\<close> stores
  \<open>(x + y) mod 32768\<close> and \<^verbatim>\<open>mult\<close> stores \<open>(x * y) mod 32768\<close> into the destination
  register, and both results lie in \<open>0..32767\<close>. This holds for all resolved values, so in
  particular for those in \<open>0..32767\<close>.
\<close>

theorem C6_add_mult:
  assumes "getValueOrReg b s = Inr x" and "getValueOrReg c s = Inr y"
  shows "Add_exec [32768 + register_number r, b, c] s
           = Inr (s\<lparr>registers := (registers s)(r := (x + y) mod 32768)\<rparr>) \<and>
         Mult_exec [32768 + register_number r, b, c] s
           = Inr (s\<lparr>registers := (registers s)(r := (x * y) mod 32768)\<rparr>) \<and>
         0 \<le> (x + y) mod 32768 \<and> (x + y) mod 32768 \<le> 32767 \<and>
         0 \<le> (x * y) mod 32768 \<and> (x * y) mod 32768 \<le> 32767"
proof -
  have add: "Add_exec [32768 + register_number r, b, c] s
          = Inr (s\<lparr>registers := (registers s)(r := (x + y) mod 32768)\<rparr>)"
    using assms by (simp add: setRegister_register)
  have mult: "Mult_exec [32768 + register_number r, b, c] s
          = Inr (s\<lparr>registers := (registers s)(r := (x * y) mod 32768)\<rparr>)"
    using assms by (simp add: setRegister_register)
  have "(x + y) mod 32768 < 32768" and "(x * y) mod 32768 < 32768"
    by simp_all
  then have "(x + y) mod 32768 \<le> 32767" and "(x * y) mod 32768 \<le> 32767"
    by linarith+
  moreover have "0 \<le> (x + y) mod 32768" and "0 \<le> (x * y) mod 32768"
    by simp_all
  ultimately show ?thesis
    using add mult by blast
qed

theorem C6_add_mult_witness:
  "getValueOrReg 32767 (VirtualMachine [] []) = Inr 32767 \<and>
   getValueOrReg 3 (VirtualMachine [] []) = Inr 3 \<and>
   Add_exec [32768, 32767, 3] (VirtualMachine [] [])
     = Inr ((VirtualMachine [] [])\<lparr>registers := (\<lambda>_. 0)(R0 := 2)\<rparr>) \<and>
   Mult_exec [32768, 32767, 3] (VirtualMachine [] [])
     = Inr ((VirtualMachine [] [])\<lparr>registers := (\<lambda>_. 0)(R0 := 32765)\<rparr>)"
proof -
  have b: "getValueOrReg 32767 (VirtualMachine [] []) = Inr 32767"
    by (simp add: getValueOrReg_def)
  have c: "getValueOrReg 3 (VirtualMachine [] []) = Inr 3"
    by (simp add: getValueOrReg_def)
  show ?thesis
    using b c C6_add_mult [OF b c, of R0] by (simp add: VirtualMachine_def)
qed

section \<open>The values the registers hold\<close>




section \<open>Memory reads\<close>

text \<open>
  Claim C8. \<open>readMemory address words\<close> fails with \<open>InvalidReadError\<close> exactly when
  \<open>words = 0\<close> or \<open>words > 32768\<close>, whatever the address. When the count is in range and
  the words lie inside the image, it returns the \<open>words\<close> consecutive words starting at
  \<open>address\<close>. It has no check of its own that \<open>address + words\<close> stays inside the image:
  a read that runs past the end is not an \<open>InvalidReadError\<close>, it fails inside
  \<^verbatim>\<open>struct.unpack\<close>, which gets fewer bytes than its format asks for.
\<close>

theorem C8_readMemory:
  "(readMemory address words s = Inl InvalidReadError \<longleftrightarrow> words = 0 \<or> 32768 < words) \<and>
   (0 < words \<and> words \<le> 32768 \<and> 0 \<le> address \<and>
      2 * (address + words) \<le> int (length (memory s)) \<longrightarrow>
    readMemory address words s
      = Inr (map (\<lambda>k. word_at (memory s) (nat address + k)) [0..<nat words])) \<and>
   (0 < words \<and> words \<le> 32768 \<and> 0 \<le> address \<and>
      int (length (memory s)) < 2 * (address + words) \<longrightarrow>
    readMemory address words s = Inl StructError)"
proof (intro conjI impI)
  show "readMemory address words s = Inl InvalidReadError \<longleftrightarrow> words = 0 \<or> 32768 < words"
    by (simp add: readMemory_def struct_unpack_error)
next
  assume "0 < words \<and> words \<le> 32768 \<and> 0 \<le> address \<and>
      2 * (address + words) \<le> int (length (memory s))"
  then show "readMemory address words s
      = Inr (map (\<lambda>k. word_at (memory s) (nat address + k)) [0..<nat words])"
    by (simp add: readMemory_inside)
next
  assume "0 < words \<and> words \<le> 32768 \<and> 0 \<le> address \<and>
      int (length (memory s)) < 2 * (address + words)"
  then show "readMemory address words s = Inl StructError"
    by (simp add: readMemory_outside)
qed

theorem C8_readMemory_witness:
  "readMemory 5 0 (VirtualMachine (image [19, 65, 0]) []) = Inl InvalidReadError \<and>
   readMemory 0 32769 (VirtualMachine (image [19, 65, 0]) []) = Inl InvalidReadError \<and>
   readMemory 1 2 (VirtualMachine (image [19, 65, 0]) []) = Inr [65, 0] \<and>
   readMemory 2 2 (VirtualMachine (image [19, 65, 0]) []) = Inl StructError"
  using C8_readMemory [of 5 0 "VirtualMachine (image [19, 65, 0]) []"]
    C8_readMemory [of 0 32769 "VirtualMachine (image [19, 65, 0]) []"]
    C8_readMemory [of 1 2 "VirtualMachine (image [19, 65, 0]) []"]
    C8_readMemory [of 2 2 "VirtualMachine (image [19, 65, 0]) []"]
  by (simp add: VirtualMachine_def word_at_def upt_conv_Cons)

section \<open>Memory write and read\<close>

text \<open>
  Claim C7. Let the operand \<open>a\<close> resolve to an address inside the memory. If
  \<^verbatim>\<open>wmem a b\<close> and then \<^verbatim>\<open>rmem c a\<close> are executed, register \<open>c\<close> ends up holding what \<open>b\<close>
  resolved to when \<^verbatim>\<open>wmem\<close> ran (\<^verbatim>\<open>wmem\<close> changes no register, so \<open>a\<close> resolves to the
  same address both times). Both instructions do execute whenever \<open>b\<close> resolves to a
  16-bit value, the only values \<^verbatim>\<open>struct.pack\<close> accepts, and \<open>c\<close> is a register
  reference.
\<close>

theorem C7_wmem_rmem_roundtrip:
  assumes "getValueOrReg a s = Inr address" and "0 \<le> address"
    and "2 * address + 2 \<le> int (length (memory s))"
  shows "(Wmem_exec [a, b] s = Inr s1 \<and> Rmem_exec [c, a] s1 = Inr s2 \<longrightarrow>
            getValueOrReg c s2 = getValueOrReg b s) \<and>
         (getValueOrReg b s = Inr v \<and> 0 \<le> v \<and> v \<le> 65535 \<longrightarrow>
            (\<exists>t1 t2. Wmem_exec [a, b] s = Inr t1 \<and>
                     Rmem_exec [32768 + register_number r, a] t1 = Inr t2 \<and>
                     registers t2 r = v))"
proof (intro conjI impI)
  assume "Wmem_exec [a, b] s = Inr s1 \<and> Rmem_exec [c, a] s1 = Inr s2"
  then have w: "Wmem_exec [a, b] s = Inr s1" and rd: "Rmem_exec [c, a] s1 = Inr s2"
    by simp_all
  from w assms(1) have "(case getValueOrReg b s of Inl e \<Rightarrow> Inl e
      | Inr data \<Rightarrow> writeMemory address data s) = Inr s1"
    by simp
  then obtain x where b: "getValueOrReg b s = Inr x"
    and wm: "writeMemory address x s = Inr s1"
    by (cases "getValueOrReg b s") simp_all
  from wm have x: "0 \<le> x" "x \<le> 65535"
    by (simp_all add: writeMemory_Inr)
  have rback: "readMemory address 1 s1 = Inr [x]"
    by (rule read_after_write(1) [OF assms(2,3) x wm])
  have regs: "registers s1 = registers s"
    by (rule read_after_write(2) [OF assms(2,3) x wm])
  from assms(1) have "getValueOrReg a s1 = Inr address"
    using getValueOrReg_registers [OF regs, of a] by simp
  with rd rback have "setRegister c x s1 = Inr s2"
    by simp
  then obtain q where "c = 32768 + register_number q"
    and "s2 = s1\<lparr>registers := (registers s1)(q := x)\<rparr>"
    using setRegister_Inr by blast
  then have "getValueOrReg c s2 = Inr x"
    by (simp add: getValueOrReg_register)
  with b show "getValueOrReg c s2 = getValueOrReg b s"
    by simp
next
  assume "getValueOrReg b s = Inr v \<and> 0 \<le> v \<and> v \<le> 65535"
  then have b: "getValueOrReg b s = Inr v" and v: "0 \<le> v" "v \<le> 65535"
    by simp_all
  obtain t1 where wm: "writeMemory address v s = Inr t1"
    using assms v writeMemory_inside by blast
  with assms(1) b have w: "Wmem_exec [a, b] s = Inr t1"
    by simp
  have rback: "readMemory address 1 t1 = Inr [v]"
    by (rule read_after_write(1) [OF assms(2,3) v wm])
  have regs: "registers t1 = registers s"
    by (rule read_after_write(2) [OF assms(2,3) v wm])
  from assms(1) have "getValueOrReg a t1 = Inr address"
    using getValueOrReg_registers [OF regs, of a] by simp
  with rback have rd: "Rmem_exec [32768 + register_number r, a] t1
      = Inr (t1\<lparr>registers := (registers t1)(r := v)\<rparr>)"
    by (simp add: setRegister_register)
  have "registers (t1\<lparr>registers := (registers t1)(r := v)\<rparr>) r = v"
    by simp
  with w rd show "\<exists>t1 t2. Wmem_exec [a, b] s = Inr t1 \<and>
      Rmem_exec [32768 + register_number r, a] t1 = Inr t2 \<and> registers t2 r = v"
    by blast
qed

theorem C7_wmem_rmem_roundtrip_witness:
  "getValueOrReg 2 (VirtualMachine (image [0, 0, 0, 0]) []) = Inr 2 \<and>
   Wmem_exec [2, 1234] (VirtualMachine (image [0, 0, 0, 0]) [])
     = Inr (VirtualMachine (image [0, 0, 1234, 0]) []) \<and>
   Rmem_exec [32768, 2] (VirtualMachine (image [0, 0, 1234, 0]) [])
     = Inr ((VirtualMachine (image [0, 0, 1234, 0]) [])\<lparr>registers := (\<lambda>_. 0)(R0 := 1234)\<rparr>) \<and>
   getValueOrReg 32768
       ((VirtualMachine (image [0, 0, 1234, 0]) [])\<lparr>registers := (\<lambda>_. 0)(R0 := 1234)\<rparr>)
     = getValueOrReg 1234 (VirtualMachine (image [0, 0, 0, 0]) []) \<and>
   (\<exists>t1 t2. Wmem_exec [2, 1234] (VirtualMachine (image [0, 0, 0, 0]) []) = Inr t1 \<and>
            Rmem_exec [32768, 2] t1 = Inr t2 \<and> registers t2 R0 = 1234)"
proof -
  have a: "getValueOrReg 2 (VirtualMachine (image [0, 0, 0, 0]) []) = Inr 2"
    by (simp add: getValueOrReg_def)
  have n: "(0::int) \<le> 2" and m: "2 * 2 + 2 \<le> int (length (memory (VirtualMachine (image [0, 0, 0, 0]) [])))"
    by (simp_all add: VirtualMachine_def)
  have w: "Wmem_exec [2, 1234] (VirtualMachine (image [0, 0, 0, 0]) [])
      = Inr (VirtualMachine (image [0, 0, 1234, 0]) [])"
    by (simp add: vm_eval writeMemory_def struct_pack_def slice_to_def slice_from_def)
  have r: "Rmem_exec [32768, 2] (VirtualMachine (image [0, 0, 1234, 0]) [])
      = Inr ((VirtualMachine (image [0, 0, 1234, 0]) [])\<lparr>registers := (\<lambda>_. 0)(R0 := 1234)\<rparr>)"
    by (simp add: vm_eval)
  have b: "getValueOrReg 1234 (VirtualMachine (image [0, 0, 0, 0]) []) = Inr 1234"
    by (simp add: getValueOrReg_def)
  show ?thesis
    using a w r b
      C7_wmem_rmem_roundtrip [OF a n m, of 1234 "VirtualMachine (image [0, 0, 1234, 0]) []" 32768
        "(VirtualMachine (image [0, 0, 1234, 0]) [])\<lparr>registers := (\<lambda>_. 0)(R0 := 1234)\<rparr>"
        1234 R0]
    by simp
qed

section \<open>Errors that end the run\<close>

text \<open>
  Claim C9. Executing \<^verbatim>\<open>pop\<close> when the stack is empty fails with the error of popping an
  empty list (\<open>IndexError\<close>, the stack underflow). Nothing catches it: the turn of the
  loop fails, \<^verbatim>\<open>run\<close> ends with the error, and the process exits with \<open>-1\<close>, not 0.
\<close>

theorem C9_pop_empty_stack:
  assumes "running s" and "decode s = Inr i" and "cls i = Pop" and "stack s = []"
  shows "exec i s = Inl IndexError \<and> step s = Inl IndexError \<and>
         run s = Some (Inl IndexError) \<and> exit_status (run s) = Some (- 1)"
proof -
  have e: "exec i s = Inl IndexError"
    using assms(3,4) by (cases "args i") (simp_all add: exec_def pop_def)
  then have st: "step s = Inl IndexError"
    using assms(2) by (simp add: step_def)
  then have "run s = Some (Inl IndexError)"
    using assms(1) by (subst run.simps) simp
  with e st show ?thesis
    by (simp add: exit_status_def)
qed

theorem C9_pop_empty_stack_witness:
  "exec \<lparr>cls = Pop, args = [32768]\<rparr> (VirtualMachine (image [3, 32768]) []) = Inl IndexError \<and>
   run (VirtualMachine (image [3, 32768]) []) = Some (Inl IndexError) \<and>
   main (image [3, 32768]) [] = Some (- 1)"
proof -
  have "running (VirtualMachine (image [3, 32768]) [])"
    by (simp add: VirtualMachine_def)
  moreover have "decode (VirtualMachine (image [3, 32768]) []) = Inr \<lparr>cls = Pop, args = [32768]\<rparr>"
    by (simp add: vm_eval)
  moreover have "cls \<lparr>cls = Pop, args = [32768]\<rparr> = Pop"
    by simp
  moreover have "stack (VirtualMachine (image [3, 32768]) []) = []"
    by (simp add: VirtualMachine_def)
  ultimately show ?thesis
    using C9_pop_empty_stack [of "VirtualMachine (image [3, 32768]) []" "\<lparr>cls = Pop, args = [32768]\<rparr>"]
    by (simp add: main_def exit_status_def)
qed

text \<open>
  Claim C10. When the line buffer is empty and the input is exhausted (\<^verbatim>\<open>readline\<close> gives
  the empty string), executing \<^verbatim>\<open>in\<close> fails with an error: the property \<^verbatim>\<open>stdin\<close> delivers
  no character, \<^verbatim>\<open>exec\<close> fails before \<open>setRegister\<close> is called, and the run ends with
  the error instead of halting.
\<close>

theorem C10_in_end_of_input:
  assumes "running s" and "decode s = Inr i" and "cls i = In"
    and "stdin_buf s = []" and "sys_stdin s = []"
  shows "stdin s = Inl IndexError \<and> exec i s = Inl IndexError \<and>
         run s = Some (Inl IndexError) \<and> exit_status (run s) = Some (- 1)"
proof -
  have i: "stdin s = Inl IndexError"
    using assms(4,5) by (simp add: stdin_def readline_def)
  then have e: "exec i s = Inl IndexError"
    using assms(3) by (cases "args i") (simp_all add: exec_def)
  then have "step s = Inl IndexError"
    using assms(2) by (simp add: step_def)
  then have "run s = Some (Inl IndexError)"
    using assms(1) by (subst run.simps) simp
  with i e show ?thesis
    by (simp add: exit_status_def)
qed

theorem C10_in_end_of_input_witness:
  "stdin (VirtualMachine (image [20, 32768, 0]) []) = Inl IndexError \<and>
   run (VirtualMachine (image [20, 32768, 0]) []) = Some (Inl IndexError) \<and>
   main (image [20, 32768, 0]) [] = Some (- 1)"
proof -
  have "running (VirtualMachine (image [20, 32768, 0]) [])"
    by (simp add: VirtualMachine_def)
  moreover have "decode (VirtualMachine (image [20, 32768, 0]) []) = Inr \<lparr>cls = In, args = [32768]\<rparr>"
    by (simp add: vm_eval)
  moreover have "cls \<lparr>cls = In, args = [32768]\<rparr> = In"
    by simp
  moreover have "stdin_buf (VirtualMachine (image [20, 32768, 0]) []) = [] \<and>
      sys_stdin (VirtualMachine (image [20, 32768, 0]) []) = []"
    by (simp add: VirtualMachine_def)
  ultimately show ?thesis
    using C10_in_end_of_input [of "VirtualMachine (image [20, 32768, 0]) []" "\<lparr>cls = In, args = [32768]\<rparr>"]
    by (simp add: main_def exit_status_def)
qed

section \<open>The call and return scenario\<close>

text \<open>
  Claim C4, as stated: the image \<open>[17, 9, 21, 21, 21, 19, 65, 18, 0]\<close> prints \<open>A\<close> and halts.
  It does not. The operand of \<^verbatim>\<open>call\<close> is 9, one past the last word of the 9-word
  image, so the fetch after the call fails in \<^verbatim>\<open>struct.unpack\<close>.
\<close>

theorem C4_call_past_image:
  "run (VirtualMachine (image [17, 9, 21, 21, 21, 19, 65, 18, 0]) []) = Some (Inl StructError)"
  by (simp add: run.simps vm_eval)

text \<open>
  Claim C4, amended. On the image \<open>[17, 9, 21, 21, 21, 19, 65, 18, 0]\<close> the \<^verbatim>\<open>call\<close> pushes
  2 and sets the program counter to 9; nothing has been written; the next fetch fails and
  the run ends with that error. With the call aimed at the \<^verbatim>\<open>out\<close> instruction and a
  \<^verbatim>\<open>halt\<close> after the two \<^verbatim>\<open>noop\<close>s, image \<open>[17, 5, 21, 21, 0, 19, 65, 18, 0]\<close>, the machine
  writes exactly the character \<open>A\<close> (code 65) and halts: the call goes to address 5, the
  return comes back to address 2, and the run falls through to the \<^verbatim>\<open>halt\<close> at address 4.
\<close>

theorem C4_scenario:
  "step (VirtualMachine (image [17, 9, 21, 21, 21, 19, 65, 18, 0]) inp)
     = Inr ((VirtualMachine (image [17, 9, 21, 21, 21, 19, 65, 18, 0]) inp)\<lparr>stack := [2], pc := 9\<rparr>) \<and>
   step ((VirtualMachine (image [17, 9, 21, 21, 21, 19, 65, 18, 0]) inp)\<lparr>stack := [2], pc := 9\<rparr>)
     = Inl StructError \<and>
   run (VirtualMachine (image [17, 9, 21, 21, 21, 19, 65, 18, 0]) inp) = Some (Inl StructError) \<and>
   run (VirtualMachine (image [17, 5, 21, 21, 0, 19, 65, 18, 0]) inp)
     = Some (Inr ((VirtualMachine (image [17, 5, 21, 21, 0, 19, 65, 18, 0]) inp)
                    \<lparr>running := False, pc := 5, sys_stdout := [65]\<rparr>))"
  by (simp add: run.simps vm_eval)

section \<open>Where the code departs from its own description\<close>

text \<open>
  Claim C5. \<open>setRegister\<close> stores the value for a reference in \<open>32768..32775\<close>
  (lemma \<open>setRegister_register\<close>). For any other reference the code means to raise
  \<^verbatim>\<open>InvalidRegisterError\<close>, but the module defines no such class (it defines
  \<^verbatim>\<open>InvalidReadError\<close>, \<^verbatim>\<open>InvalidValueError\<close> and \<^verbatim>\<open>InvalidArgumentsError\<close> only), so the
  \<^verbatim>\<open>raise\<close> statement itself fails with \<open>NameError\<close>: \<^verbatim>\<open>set 0 5\<close> ends the run with
  \<open>NameError\<close>.
\<close>

theorem C5_setRegister_NameError:
  "setRegister 0 5 (VirtualMachine (image [1, 0, 5]) []) = Inl NameError \<and>
   run (VirtualMachine (image [1, 0, 5]) []) = Some (Inl NameError)"
  by (simp add: run.simps vm_eval)

text \<open>
  Claim C3. \<^verbatim>\<open>ret\<close> pops one value and changes nothing but the stack and the program
  counter, but it resolves twice: the popped value, and then the result. With 32768 on
  the stack, 32769 in register 0 and 14 in register 1, one resolution of the popped value
  gives 32769 and \<^verbatim>\<open>ret\<close> sets the program counter to 14. The program below reaches that
  state (\<^verbatim>\<open>rmem\<close> loads 32768 and 32769 into registers 2 and 0, \<^verbatim>\<open>set\<close> puts 14 in
  register 1, \<^verbatim>\<open>push\<close> pushes register 2) and then halts at address 14.
\<close>

theorem C3_ret_resolves_twice:
  "getValueOrReg 32768
     ((VirtualMachine [] [])\<lparr>stack := [32768], registers := (\<lambda>_. 0)(R0 := 32769, R1 := 14)\<rparr>)
     = Inr 32769 \<and>
   Ret_incpc []
     ((VirtualMachine [] [])\<lparr>stack := [32768], registers := (\<lambda>_. 0)(R0 := 32769, R1 := 14)\<rparr>)
     = Inr ((VirtualMachine [] [])\<lparr>stack := [], pc := 14,
              registers := (\<lambda>_. 0)(R0 := 32769, R1 := 14)\<rparr>) \<and>
   run (VirtualMachine
          (image [15, 32770, 16, 15, 32768, 17, 1, 32769, 14, 2, 32770, 18, 0, 0, 0, 0,
                  32768, 32769]) [])
     = Some (Inr ((VirtualMachine
          (image [15, 32770, 16, 15, 32768, 17, 1, 32769, 14, 2, 32770, 18, 0, 0, 0, 0,
                  32768, 32769]) [])
          \<lparr>running := False, pc := 15,
            registers := (\<lambda>_. 0)(R2 := 32768, R0 := 32769, R1 := 14)\<rparr>))"
  by (simp add: run.simps vm_eval)

end
